theory Spec2Isabelle
  imports Main
begin

section \<open>Data model of the HTTP tool server (src/http_server.py)\<close>

text \<open>
  JSON documents: the input schemas of the tools, the request arguments and the
  response bodies are Python dicts, lists and strings. A dict keeps its insertion
  order, so an object is an association list.
\<close>

datatype json =
    JNull
  | JBool bool
  | JNum int
  | JString string
  | JArray "json list"
  | JObject "(string \<times> json) list"

text \<open>
  The eight handler functions are imported from the module
  \<^verbatim>\<open>src.mcp_snowflake_server.server\<close>; a descriptor refers to one of them.
\<close>

datatype handler_ref =
    handle_list_databases
  | handle_list_schemas
  | handle_list_tables
  | handle_describe_table
  | handle_read_query
  | handle_append_insight
  | handle_write_query
  | handle_create_table

record Tool =
  name :: string
  description :: string
  input_schema :: json
  handler :: handler_ref
  tags :: "string list"

text \<open>
  Modelled from the spec: the class \<^verbatim>\<open>Tool\<close> is imported from
  \<^verbatim>\<open>src.mcp_snowflake_server.server\<close> and is not among the source files. The six
  read-only descriptors are built without a \<^verbatim>\<open>tags\<close> argument; the spec gives a
  descriptor a set of tags and keeps all six when writes are disallowed, so the
  default is the empty list.
\<close>

definition Tool_default_tags :: "string list" where
  "Tool_default_tags = []"

type_synonym connection_args = "(string \<times> string) list"
type_synonym exclusion_cfg = "(string \<times> string list) list"

text \<open>
  The database client and the write detector are external collaborators; the
  server only stores them and hands them to the handlers. The client is
  identified by the arguments it was constructed from.
\<close>

datatype SnowflakeDB = SnowflakeDB connection_args
datatype SQLWriteDetector = SQLWriteDetector

record MCPHTTPServer =
  connection_args :: connection_args
  allow_write :: bool
  exclude_tools :: "string list"
  exclude_json_results :: bool
  exclusion_config :: exclusion_cfg
  db :: SnowflakeDB
  write_detector :: SQLWriteDetector
  all_tools :: "Tool list"
  allowed_tools :: "Tool list"

section \<open>The catalog (MCPHTTPServer.__init__, lines 86-189)\<close>

definition base_tools :: "Tool list" where
  "base_tools = [
     \<lparr> name = ''list_databases'',
       description = ''List all available databases in Snowflake'',
       input_schema = JObject [(''type'', JString ''object''), (''properties'', JObject [])],
       handler = handle_list_databases,
       tags = Tool_default_tags \<rparr>,
     \<lparr> name = ''list_schemas'',
       description = ''List all schemas in a database'',
       input_schema = JObject [
         (''type'', JString ''object''),
         (''properties'', JObject [
            (''database'', JObject [
               (''type'', JString ''string''),
               (''description'', JString ''Database name to list schemas from'')])]),
         (''required'', JArray [JString ''database''])],
       handler = handle_list_schemas,
       tags = Tool_default_tags \<rparr>,
     \<lparr> name = ''list_tables'',
       description = ''List all tables in a specific database and schema'',
       input_schema = JObject [
         (''type'', JString ''object''),
         (''properties'', JObject [
            (''database'', JObject [
               (''type'', JString ''string''), (''description'', JString ''Database name'')]),
            (''schema'', JObject [
               (''type'', JString ''string''), (''description'', JString ''Schema name'')])]),
         (''required'', JArray [JString ''database'', JString ''schema''])],
       handler = handle_list_tables,
       tags = Tool_default_tags \<rparr>,
     \<lparr> name = ''describe_table'',
       description = ''Get the schema information for a specific table'',
       input_schema = JObject [
         (''type'', JString ''object''),
         (''properties'', JObject [
            (''table_name'', JObject [
               (''type'', JString ''string''),
               (''description'',
                  JString (''Fully qualified table name in the format '' @ [CHR 0x27]
                     @ ''database.schema.table'' @ [CHR 0x27]))])]),
         (''required'', JArray [JString ''table_name''])],
       handler = handle_describe_table,
       tags = Tool_default_tags \<rparr>,
     \<lparr> name = ''read_query'',
       description = ''Execute a SELECT query'',
       input_schema = JObject [
         (''type'', JString ''object''),
         (''properties'', JObject [
            (''query'', JObject [
               (''type'', JString ''string''),
               (''description'', JString ''SELECT SQL query to execute'')])]),
         (''required'', JArray [JString ''query''])],
       handler = handle_read_query,
       tags = Tool_default_tags \<rparr>,
     \<lparr> name = ''append_insight'',
       description = ''Add a data insight to the memo'',
       input_schema = JObject [
         (''type'', JString ''object''),
         (''properties'', JObject [
            (''insight'', JObject [
               (''type'', JString ''string''),
               (''description'', JString ''Data insight discovered from analysis'')])]),
         (''required'', JArray [JString ''insight''])],
       handler = handle_append_insight,
       tags = [''resource_based''] \<rparr>]"

definition write_tools :: "Tool list" where
  "write_tools = [
     \<lparr> name = ''write_query'',
       description = ''Execute an INSERT, UPDATE, or DELETE query on the Snowflake database'',
       input_schema = JObject [
         (''type'', JString ''object''),
         (''properties'', JObject [
            (''query'', JObject [
               (''type'', JString ''string''),
               (''description'', JString ''SQL query to execute'')])]),
         (''required'', JArray [JString ''query''])],
       handler = handle_write_query,
       tags = [''write''] \<rparr>,
     \<lparr> name = ''create_table'',
       description = ''Create a new table in the Snowflake database'',
       input_schema = JObject [
         (''type'', JString ''object''),
         (''properties'', JObject [
            (''query'', JObject [
               (''type'', JString ''string''),
               (''description'', JString ''CREATE TABLE SQL statement'')])]),
         (''required'', JArray [JString ''query''])],
       handler = handle_create_table,
       tags = [''write''] \<rparr>]"

text \<open>
  The full catalog is every descriptor the constructor can build: the base list
  followed by the two write tools, in declaration order.
\<close>

definition full_catalog :: "Tool list" where
  "full_catalog = base_tools @ write_tools"

text \<open>
  Lines 86-189: \<^verbatim>\<open>self.all_tools\<close> is the base list, extended by the write tools
  when \<^verbatim>\<open>allow_write\<close> holds.
\<close>

definition build_all_tools :: "bool \<Rightarrow> Tool list" where
  "build_all_tools aw = (if aw then base_tools @ write_tools else base_tools)"

text \<open>Line 192.\<close>

definition exclude_tags_of :: "bool \<Rightarrow> string list" where
  "exclude_tags_of aw = (if aw then [] else [''write''])"

text \<open>
  Lines 193-196: the list comprehension keeps a tool whose name is not excluded
  and none of whose tags is an excluded tag.
\<close>

definition filter_tools :: "string list \<Rightarrow> string list \<Rightarrow> Tool list \<Rightarrow> Tool list" where
  "filter_tools excl extags ts =
     filter (\<lambda>tool. name tool \<notin> set excl \<and> \<not> list_ex (\<lambda>tag. tag \<in> set extags) (tags tool)) ts"

text \<open>
  Line 77: \<^verbatim>\<open>exclusion_config or {...}\<close>: None and the empty dict are both
  falsy and give the default.
\<close>

definition default_exclusion_config :: exclusion_cfg where
  "default_exclusion_config = [(''databases'', []), (''schemas'', []), (''tables'', [])]"

definition or_default :: "'a list option \<Rightarrow> 'a list \<Rightarrow> 'a list" where
  "or_default v d = (case v of None \<Rightarrow> d | Some [] \<Rightarrow> d | Some xs \<Rightarrow> xs)"

text \<open>
  The constructor. The parameters with default None are options. The connection
  that \<^verbatim>\<open>start_init_connection\<close> opens and the log line are outside the model.
\<close>

definition MCPHTTPServer_init ::
  "connection_args \<Rightarrow> bool \<Rightarrow> string list option \<Rightarrow> bool \<Rightarrow> exclusion_cfg option \<Rightarrow> MCPHTTPServer"
where
  "MCPHTTPServer_init cargs aw excl ejr ecfg =
     (let excl' = or_default excl [];
          tools = build_all_tools aw
      in \<lparr> connection_args = cargs,
           allow_write = aw,
           exclude_tools = excl',
           exclude_json_results = ejr,
           exclusion_config = or_default ecfg default_exclusion_config,
           db = SnowflakeDB cargs,
           write_detector = SQLWriteDetector,
           all_tools = tools,
           allowed_tools = filter_tools excl' (exclude_tags_of aw) tools \<rparr>)"

section \<open>Handlers as external capabilities\<close>

text \<open>
  A Python exception raised by a handler. The dispatcher's \<^verbatim>\<open>except Exception\<close>
  clause matches the instances of \<^verbatim>\<open>Exception\<close>; the other exceptions of the
  language (\<^verbatim>\<open>KeyboardInterrupt\<close>, \<^verbatim>\<open>SystemExit\<close>, \<^verbatim>\<open>GeneratorExit\<close>,
  \<^verbatim>\<open>asyncio.CancelledError\<close>) derive from \<^verbatim>\<open>BaseException\<close> only. Each carries
  the text that \<^verbatim>\<open>str(e)\<close> gives.
\<close>

datatype py_exception = Exception (exc_str: string) | BaseException (exc_str: string)

text \<open>
  Modelled from the spec: the handlers are not among the source files. A handler
  returns either a sequence of content items, each optionally exposing a textual
  field \<^verbatim>\<open>text\<close>, or a single value. An item records its \<^verbatim>\<open>text\<close> attribute
  (None when \<^verbatim>\<open>hasattr(item, 'text')\<close> is false) and what \<^verbatim>\<open>str(item)\<close> gives.
\<close>

datatype item = Item (item_text: "string option") (item_str: string)

text \<open>A result that is not a list: only its \<^verbatim>\<open>str()\<close> is observed.\<close>

datatype py_scalar = PyNone | PyStr string | PyObject string

fun py_str :: "py_scalar \<Rightarrow> string" where
  "py_str PyNone = ''None''"
| "py_str (PyStr s) = s"
| "py_str (PyObject s) = s"

datatype py_value = PyList "item list" | PyOther py_scalar

datatype outcome = Returns py_value | Raises py_exception

text \<open>
  What a handler is called with: five positional arguments and the keyword
  arguments. \<open>kw_exclusion_config\<close> is None when the keyword is not passed.
  \<open>arg_server\<close> is the server handle, always None over HTTP.
\<close>

record handler_call =
  arg_arguments :: "(string \<times> json) list option"
  arg_db :: SnowflakeDB
  arg_write_detector :: SQLWriteDetector
  arg_allow_write :: bool
  arg_server :: "unit option"
  kw_exclusion_config :: "exclusion_cfg option"
  kw_exclude_json_results :: bool

text \<open>
  The behaviour of the handlers is a parameter: given the call and the state of
  the outside world (the database, the memo of insights), a handler returns or
  raises and leaves a new state. The run state pairs the world with the log of
  handler invocations made so far.
\<close>

type_synonym 'w handlers = "handler_ref \<Rightarrow> handler_call \<Rightarrow> 'w \<Rightarrow> outcome \<times> 'w"
type_synonym 'w run_state = "'w \<times> (handler_ref \<times> handler_call) list"

definition invoke :: "'w handlers \<Rightarrow> handler_ref \<Rightarrow> handler_call \<Rightarrow> 'w run_state \<Rightarrow> outcome \<times> 'w run_state" where
  "invoke H h c st =
     (case H h c (fst st) of (out, w') \<Rightarrow> (out, (w', snd st @ [(h, c)])))"

section \<open>Dispatch (MCPHTTPServer.call_tool, lines 200-245)\<close>

text \<open>Line 205: the handler of the first allowed tool with that name, or None.\<close>

definition resolve :: "Tool list \<Rightarrow> string \<Rightarrow> handler_ref option" where
  "resolve ts nm = map_option handler (find (\<lambda>tool. name tool = nm) ts)"

text \<open>Line 236: \<^verbatim>\<open>item.text if hasattr(item, 'text') else str(item)\<close>.\<close>

definition item_to_text :: "item \<Rightarrow> string" where
  "item_to_text it = (case item_text it of Some t \<Rightarrow> t | None \<Rightarrow> item_str it)"

text \<open>Lines 232-241.\<close>

definition normalize_result :: "py_value \<Rightarrow> json" where
  "normalize_result r =
     (case r of
        PyList items \<Rightarrow> JObject [(''result'', JArray (map (\<lambda>it. JString (item_to_text it)) items))]
      | PyOther v \<Rightarrow> JObject [(''result'', JString (py_str v))])"

definition enumeration_tools :: "string list" where
  "enumeration_tools = [''list_databases'', ''list_schemas'', ''list_tables'']"

text \<open>Lines 211-229: the two calling conventions.\<close>

definition build_call :: "MCPHTTPServer \<Rightarrow> string \<Rightarrow> (string \<times> json) list option \<Rightarrow> handler_call" where
  "build_call self nm args =
     (if nm \<in> set enumeration_tools then
        \<lparr> arg_arguments = args, arg_db = db self, arg_write_detector = write_detector self,
          arg_allow_write = allow_write self, arg_server = None,
          kw_exclusion_config = Some (exclusion_config self),
          kw_exclude_json_results = exclude_json_results self \<rparr>
      else
        \<lparr> arg_arguments = args, arg_db = db self, arg_write_detector = write_detector self,
          arg_allow_write = allow_write self, arg_server = None,
          kw_exclusion_config = None,
          kw_exclude_json_results = exclude_json_results self \<rparr>)"

text \<open>
  The result is the returned dict (Inr) or the exception that leaves the method
  (Inl), with the run state after the call.
\<close>

definition call_tool ::
  "'w handlers \<Rightarrow> MCPHTTPServer \<Rightarrow> string \<Rightarrow> (string \<times> json) list option \<Rightarrow> 'w run_state
     \<Rightarrow> (py_exception + json) \<times> 'w run_state"
where
  "call_tool H self nm args st =
     (if nm \<in> set (exclude_tools self) then
        (Inr (JObject [(''error'', JString (''Tool '' @ nm @ '' is excluded from this data connection''))]), st)
      else
        (case resolve (allowed_tools self) nm of
           None \<Rightarrow> (Inr (JObject [(''error'', JString (''Unknown tool: '' @ nm))]), st)
         | Some h \<Rightarrow>
             (case invoke H h (build_call self nm args) st of
                (Returns r, st') \<Rightarrow> (Inr (normalize_result r), st')
              | (Raises (Exception msg), st') \<Rightarrow> (Inr (JObject [(''error'', JString msg)]), st')
              | (Raises (BaseException msg), st') \<Rightarrow> (Inl (BaseException msg), st'))))"

text \<open>Lines 247-256.\<close>

definition get_tools_list :: "MCPHTTPServer \<Rightarrow> (string \<times> json) list list" where
  "get_tools_list self =
     map (\<lambda>tool. [(''name'', JString (name tool)),
                   (''description'', JString (description tool)),
                   (''input_schema'', input_schema tool)])
         (allowed_tools self)"

text \<open>
  The three shapes of a response body: a string result, a list of strings, an
  error message.
\<close>

fun is_JString :: "json \<Rightarrow> bool" where
  "is_JString (JString s) = True"
| "is_JString j = False"

definition wire_shape :: "json \<Rightarrow> bool" where
  "wire_shape body =
     (case body of
        JObject [(k, v)] \<Rightarrow>
          (case v of
             JString s \<Rightarrow> k = ''result'' \<or> k = ''error''
           | JArray xs \<Rightarrow> k = ''result'' \<and> list_all is_JString xs
           | _ \<Rightarrow> False)
      | _ \<Rightarrow> False)"

section \<open>The HTTP surface (lines 259-323)\<close>

text \<open>
  The global \<^verbatim>\<open>mcp_server\<close> is None until \<^verbatim>\<open>initialize_server\<close> has run. An
  endpoint either answers with a body or fails: with the HTTPException it raises
  itself, or with an exception passed on from the dispatcher.
\<close>

datatype fault = HTTPException nat string | Unhandled py_exception

definition initialize_server ::
  "connection_args \<Rightarrow> bool \<Rightarrow> string list option \<Rightarrow> bool \<Rightarrow> exclusion_cfg option
     \<Rightarrow> MCPHTTPServer option"
where
  "initialize_server cargs aw excl ejr ecfg =
     Some (MCPHTTPServer_init cargs aw (Some (or_default excl [])) ejr
             (Some (or_default ecfg default_exclusion_config)))"

definition list_tools :: "MCPHTTPServer option \<Rightarrow> fault + json" where
  "list_tools mcp_server =
     (case mcp_server of
        None \<Rightarrow> Inl (HTTPException 500 ''Server not initialized'')
      | Some srv \<Rightarrow> Inr (JObject [(''tools'', JArray (map JObject (get_tools_list srv)))]))"

definition call_tool_endpoint ::
  "'w handlers \<Rightarrow> MCPHTTPServer option \<Rightarrow> string \<Rightarrow> (string \<times> json) list option \<Rightarrow> 'w run_state
     \<Rightarrow> (fault + json) \<times> 'w run_state"
where
  "call_tool_endpoint H mcp_server tool_name args st =
     (case mcp_server of
        None \<Rightarrow> (Inl (HTTPException 500 ''Server not initialized''), st)
      | Some srv \<Rightarrow>
          (case call_tool H srv tool_name args st of
             (Inl e, st') \<Rightarrow> (Inl (Unhandled e), st')
           | (Inr body, st') \<Rightarrow> (Inr body, st')))"

section \<open>The event stream (sse_endpoint, lines 292-304)\<close>

text \<open>
  The events the generator yields. A timestamp is a reading of the event loop's
  clock; only the order of readings matters here, so its type is a parameter.
\<close>

datatype 't sse_event = Connection (status: string) | Ping (timestamp: 't)

text \<open>
  What the generator does, in order: it yields an event or it sleeps for a number
  of seconds. \<^verbatim>\<open>asyncio.sleep(30)\<close> suspends the generator for at least that long.
\<close>

datatype 't sse_action = Yield "'t sse_event" | Sleep nat

text \<open>
  Lines 300-302: each round of the loop yields a ping stamped with the clock and
  then sleeps 30 seconds. The loop has no exit; \<open>n\<close> is the number of rounds
  observed and \<open>clock k\<close> is the clock's reading in round \<open>k\<close>.
\<close>

fun ping_loop :: "(nat \<Rightarrow> 't) \<Rightarrow> nat \<Rightarrow> nat \<Rightarrow> 't sse_action list" where
  "ping_loop clock k 0 = []"
| "ping_loop clock k (Suc n) = Yield (Ping (clock k)) # Sleep 30 # ping_loop clock (Suc k) n"

text \<open>Lines 295-302: the connection message, then the loop.\<close>

definition event_stream :: "(nat \<Rightarrow> 't) \<Rightarrow> nat \<Rightarrow> 't sse_action list" where
  "event_stream clock n = Yield (Connection ''connected'') # ping_loop clock 0 n"

text \<open>The events of a trace, in the order they are emitted.\<close>

fun yields :: "'t sse_action list \<Rightarrow> 't sse_event list" where
  "yields [] = []"
| "yields (Yield e # as) = e # yields as"
| "yields (Sleep d # as) = yields as"

text \<open>
  The seconds of sleep that come before the event with index \<open>i\<close> (the first
  event has index 0) in a trace that has such an event.
\<close>

fun slept_before :: "nat \<Rightarrow> 't sse_action list \<Rightarrow> nat" where
  "slept_before i [] = 0"
| "slept_before i (Sleep d # as) = d + slept_before i as"
| "slept_before 0 (Yield e # as) = 0"
| "slept_before (Suc i) (Yield e # as) = slept_before i as"

text \<open>The durations of the sleeps of a trace, in order.\<close>

fun sleeps :: "'t sse_action list \<Rightarrow> nat list" where
  "sleeps [] = []"
| "sleeps (Yield e # as) = sleeps as"
| "sleeps (Sleep d # as) = d # sleeps as"

section \<open>Concrete configurations and stub handlers\<close>

text \<open>The server of a default start: no writes, nothing excluded.\<close>

definition read_only_server :: MCPHTTPServer where
  "read_only_server = MCPHTTPServer_init [] False None False None"

text \<open>Writes allowed, \<^verbatim>\<open>create_table\<close> excluded.\<close>

definition write_server :: MCPHTTPServer where
  "write_server = MCPHTTPServer_init [] True (Some [''create_table'']) False None"

text \<open>
  Stub handlers that count their invocations in the world: the query handler
  returns two content items (one with a text field, one without), the database
  listing returns an empty list, the insight handler returns None, the table
  description fails with an ordinary error, every other handler returns a string.
\<close>

definition stub_handlers :: "nat handlers" where
  "stub_handlers h c w =
     (case h of
        handle_read_query \<Rightarrow> Returns (PyList [Item (Some ''1 row'') ''TextContent'', Item None ''blob''])
      | handle_list_databases \<Rightarrow> Returns (PyList [])
      | handle_append_insight \<Rightarrow> Returns (PyOther PyNone)
      | handle_describe_table \<Rightarrow> Raises (Exception ''table not found'')
      | _ \<Rightarrow> Returns (PyOther (PyStr ''ok'')),
      Suc w)"

text \<open>
  Handlers whose await is cancelled: \<^verbatim>\<open>asyncio.CancelledError\<close> derives from
  \<^verbatim>\<open>BaseException\<close> only, and its \<^verbatim>\<open>str()\<close> is empty.
\<close>

definition cancelled_handlers :: "nat handlers" where
  "cancelled_handlers h c w = (Raises (BaseException []), w)"

text \<open>A clock that reads 1000 at the first round and 30 more at each later round.\<close>

definition example_clock :: "nat \<Rightarrow> int" where
  "example_clock k = 1000 + 30 * int k"

section \<open>Facts about the catalog\<close>

lemma base_tools_names:
  "map name base_tools = [''list_databases'', ''list_schemas'', ''list_tables'',
     ''describe_table'', ''read_query'', ''append_insight'']"
  by (simp add: base_tools_def)

lemma write_tools_names: "map name write_tools = [''write_query'', ''create_table'']"
  by (simp add: write_tools_def)

lemma full_catalog_names_distinct: "distinct (map name full_catalog)"
  by (simp add: full_catalog_def base_tools_names write_tools_names)

lemma base_tools_untagged: "t \<in> set base_tools \<Longrightarrow> ''write'' \<notin> set (tags t)"
  by (auto simp: base_tools_def Tool_default_tags_def)

lemma write_tools_tagged: "t \<in> set write_tools \<Longrightarrow> ''write'' \<in> set (tags t)"
  by (auto simp: write_tools_def)

lemma exclude_tools_init:
  "exclude_tools (MCPHTTPServer_init ca aw excl ejr ecfg) = or_default excl []"
  by (simp add: MCPHTTPServer_init_def Let_def)

lemma allow_write_init: "allow_write (MCPHTTPServer_init ca aw excl ejr ecfg) = aw"
  by (simp add: MCPHTTPServer_init_def Let_def)

text \<open>
  The registry is the full catalog filtered by one predicate, whichever of the
  two lists the constructor started from.
\<close>

lemma allowed_tools_init:
  "allowed_tools (MCPHTTPServer_init ca aw excl ejr ecfg) =
     filter (\<lambda>t. name t \<notin> set (or_default excl []) \<and> (aw \<or> ''write'' \<notin> set (tags t)))
       full_catalog"
proof (cases aw)
  case True
  then show ?thesis
    by (simp add: MCPHTTPServer_init_def Let_def filter_tools_def build_all_tools_def
        exclude_tags_of_def full_catalog_def list_ex_iff)
next
  case False
  have "filter (\<lambda>t. name t \<notin> set (or_default excl []) \<and> ''write'' \<notin> set (tags t)) write_tools = []"
    by (auto simp: filter_empty_conv dest: write_tools_tagged)
  with False show ?thesis
    by (simp add: MCPHTTPServer_init_def Let_def filter_tools_def build_all_tools_def
        exclude_tags_of_def full_catalog_def list_ex_iff)
qed

lemma read_only_registry:
  "allowed_tools (MCPHTTPServer_init ca False (Some []) ejr ecfg) = base_tools"
proof -
  have "filter (\<lambda>t. ''write'' \<notin> set (tags t)) base_tools = base_tools"
    by (auto simp: filter_id_conv dest: base_tools_untagged)
  moreover have "filter (\<lambda>t. ''write'' \<notin> set (tags t)) write_tools = []"
    by (auto simp: filter_empty_conv dest: write_tools_tagged)
  ultimately show ?thesis
    by (simp add: allowed_tools_init or_default_def full_catalog_def)
qed

lemma write_registry_names:
  "map name (allowed_tools (MCPHTTPServer_init ca True (Some [''create_table'']) ejr ecfg)) =
     [''list_databases'', ''list_schemas'', ''list_tables'',
      ''describe_table'', ''read_query'', ''append_insight'', ''write_query'']"
  by (simp add: allowed_tools_init or_default_def full_catalog_def base_tools_def write_tools_def)

section \<open>Facts about the dispatcher\<close>

lemma resolve_None_iff: "resolve ts nm = None \<longleftrightarrow> nm \<notin> name ` set ts"
  by (auto simp: resolve_def find_None_iff)

lemma resolve_SomeD: "resolve ts nm = Some h \<Longrightarrow> \<exists>t \<in> set ts. name t = nm \<and> handler t = h"
  by (auto simp: resolve_def find_Some_iff)

lemma call_tool_resolved:
  assumes "nm \<notin> set (exclude_tools self)" and "resolve (allowed_tools self) nm = Some h"
    and "H h (build_call self nm args) w = (out, w')"
  shows "call_tool H self nm args (w, log) =
     (case out of
        Returns r \<Rightarrow> Inr (normalize_result r)
      | Raises (Exception msg) \<Rightarrow> Inr (JObject [(''error'', JString msg)])
      | Raises (BaseException msg) \<Rightarrow> Inl (BaseException msg),
      (w', log @ [(h, build_call self nm args)]))"
  using assms by (simp add: call_tool_def invoke_def split: outcome.splits py_exception.splits)

lemma wire_shape_normalize: "wire_shape (normalize_result r)"
  by (cases r) (simp_all add: wire_shape_def normalize_result_def list_all_iff)

lemma wire_shape_error: "wire_shape (JObject [(''error'', JString m)])"
  by (simp add: wire_shape_def)

lemma call_tool_wire_shape:
  "fst (call_tool H self nm args st) = Inr body \<Longrightarrow> wire_shape body"
  by (auto simp: call_tool_def invoke_def wire_shape_normalize wire_shape_error
      split: if_splits option.splits prod.splits outcome.splits py_exception.splits)

lemma read_only_server_excludes: "exclude_tools read_only_server = []"
  by (simp add: read_only_server_def exclude_tools_init or_default_def)

lemma read_only_server_tools: "allowed_tools read_only_server = base_tools"
proof -
  have "allowed_tools read_only_server = allowed_tools (MCPHTTPServer_init [] False (Some []) False None)"
    by (simp add: read_only_server_def MCPHTTPServer_init_def or_default_def)
  then show ?thesis by (simp add: read_only_registry)
qed

lemma write_server_excludes: "exclude_tools write_server = [''create_table'']"
  by (simp add: write_server_def exclude_tools_init or_default_def)

lemma resolve_read_only:
  "resolve (allowed_tools read_only_server) ''read_query'' = Some handle_read_query"
  "resolve (allowed_tools read_only_server) ''list_databases'' = Some handle_list_databases"
  "resolve (allowed_tools read_only_server) ''describe_table'' = Some handle_describe_table"
  "resolve (allowed_tools read_only_server) ''write_query'' = None"
  by (simp_all add: read_only_server_tools resolve_def base_tools_def)

section \<open>The registry\<close>

text \<open>
  Claim C1. For every pair (allow_write, exclude_tools) the registry built by the
  constructor holds a descriptor named X exactly when the full catalog has a
  descriptor named X, X is not excluded, and writes are allowed or that
  descriptor is not tagged "write". The registry is the full catalog filtered, so
  declaration order is kept. With allow_write false and nothing excluded it is
  the six read-only entries; with allow_write true and create_table excluded it
  is those six followed by write_query.
\<close>

theorem registry_policy:
  "((\<exists>t \<in> set (allowed_tools (MCPHTTPServer_init ca aw excl ejr ecfg)). name t = nm) \<longleftrightarrow>
      (\<exists>t \<in> set full_catalog. name t = nm
          \<and> nm \<notin> set (exclude_tools (MCPHTTPServer_init ca aw excl ejr ecfg))
          \<and> (aw \<or> ''write'' \<notin> set (tags t))))
   \<and> allowed_tools (MCPHTTPServer_init ca aw excl ejr ecfg) =
       filter (\<lambda>t. name t \<notin> set (exclude_tools (MCPHTTPServer_init ca aw excl ejr ecfg))
                    \<and> (aw \<or> ''write'' \<notin> set (tags t))) full_catalog
   \<and> allowed_tools (MCPHTTPServer_init ca False (Some []) ejr ecfg) = base_tools
   \<and> map name (allowed_tools (MCPHTTPServer_init ca False (Some []) ejr ecfg)) =
       [''list_databases'', ''list_schemas'', ''list_tables'',
        ''describe_table'', ''read_query'', ''append_insight'']
   \<and> map name (allowed_tools (MCPHTTPServer_init ca True (Some [''create_table'']) ejr ecfg)) =
       [''list_databases'', ''list_schemas'', ''list_tables'',
        ''describe_table'', ''read_query'', ''append_insight'', ''write_query'']"
proof -
  let ?srv = "MCPHTTPServer_init ca aw excl ejr ecfg"
  have flt: "allowed_tools ?srv =
       filter (\<lambda>t. name t \<notin> set (exclude_tools ?srv) \<and> (aw \<or> ''write'' \<notin> set (tags t))) full_catalog"
    by (simp add: allowed_tools_init exclude_tools_init)
  have mem: "(\<exists>t \<in> set (allowed_tools ?srv). name t = nm) \<longleftrightarrow>
      (\<exists>t \<in> set full_catalog. name t = nm \<and> nm \<notin> set (exclude_tools ?srv)
          \<and> (aw \<or> ''write'' \<notin> set (tags t)))"
    unfolding flt by auto
  have names: "map name (allowed_tools (MCPHTTPServer_init ca False (Some []) ejr ecfg)) =
       [''list_databases'', ''list_schemas'', ''list_tables'',
        ''describe_table'', ''read_query'', ''append_insight'']"
    by (simp only: read_only_registry base_tools_names)
  show ?thesis
    by (rule conjI [OF mem conjI [OF flt conjI [OF read_only_registry
          conjI [OF names write_registry_names]]]])
qed

theorem registry_policy_witness:
  "(\<exists>t \<in> set (allowed_tools write_server). name t = ''write_query'')
   \<and> \<not> (\<exists>t \<in> set (allowed_tools write_server). name t = ''create_table'')
   \<and> \<not> (\<exists>t \<in> set (allowed_tools read_only_server). name t = ''write_query'')"
proof -
  have a: "\<exists>t \<in> set full_catalog. name t = ''write_query''
      \<and> ''write_query'' \<notin> set (exclude_tools (MCPHTTPServer_init [] True (Some [''create_table'']) False None))
      \<and> (True \<or> ''write'' \<notin> set (tags t))"
    by (simp add: exclude_tools_init or_default_def full_catalog_def base_tools_def write_tools_def)
  have b: "\<not> (\<exists>t \<in> set full_catalog. name t = ''create_table''
      \<and> ''create_table'' \<notin> set (exclude_tools (MCPHTTPServer_init [] True (Some [''create_table'']) False None))
      \<and> (True \<or> ''write'' \<notin> set (tags t)))"
    by (simp add: exclude_tools_init or_default_def)
  have c: "\<not> (\<exists>t \<in> set full_catalog. name t = ''write_query''
      \<and> ''write_query'' \<notin> set (exclude_tools (MCPHTTPServer_init [] False None False None))
      \<and> (False \<or> ''write'' \<notin> set (tags t)))"
    by (simp add: full_catalog_def base_tools_def write_tools_def Tool_default_tags_def)
  from a b c
    registry_policy [of "[]" True "Some [''create_table'']" False None "''write_query''", THEN conjunct1]
    registry_policy [of "[]" True "Some [''create_table'']" False None "''create_table''", THEN conjunct1]
    registry_policy [of "[]" False None False None "''write_query''", THEN conjunct1]
  show ?thesis
    unfolding write_server_def read_only_server_def by blast
qed

section \<open>The dispatch gateway\<close>

text \<open>
  Claim C2. For every name in the exclude_tools configuration, call_tool returns
  exactly the error body "Tool {name} is excluded from this data connection" and
  invokes no handler: the world and the invocation log are unchanged. The check
  comes first and does not look at the registry, so it holds for any registry.
\<close>

theorem excluded_tool_rejected:
  "nm \<in> set (exclude_tools self) \<Longrightarrow>
     call_tool H self nm args st =
       (Inr (JObject [(''error'',
          JString (''Tool '' @ nm @ '' is excluded from this data connection''))]), st)"
  by (simp add: call_tool_def)

theorem excluded_tool_rejected_witness:
  "''create_table'' \<in> set (exclude_tools write_server)
   \<and> call_tool stub_handlers write_server ''create_table'' None (0, []) =
       (Inr (JObject [(''error'',
          JString ''Tool create_table is excluded from this data connection'')]), (0, []))"
proof -
  have h: "''create_table'' \<in> set (exclude_tools write_server)"
    by (simp add: write_server_excludes)
  from h excluded_tool_rejected [OF h, of stub_handlers None "(0, [])"] show ?thesis
    by simp
qed

text \<open>
  Claim C3. For every name that is not excluded and that no registry descriptor
  carries, call_tool returns exactly the error body "Unknown tool: {name}" and
  invokes no handler. With allow_write false and write_query not excluded,
  invoking write_query gives "Unknown tool: write_query".
\<close>

theorem unknown_tool_rejected:
  "(nm \<notin> set (exclude_tools self) \<longrightarrow> nm \<notin> name ` set (allowed_tools self) \<longrightarrow>
      call_tool H self nm args st =
        (Inr (JObject [(''error'', JString (''Unknown tool: '' @ nm))]), st))
   \<and> (''write_query'' \<notin> set (or_default excl []) \<longrightarrow>
      call_tool H (MCPHTTPServer_init ca False excl ejr ecfg) ''write_query'' args st =
        (Inr (JObject [(''error'', JString ''Unknown tool: write_query'')]), st))"
proof -
  have gen: "call_tool H srv n args st = (Inr (JObject [(''error'', JString (''Unknown tool: '' @ n))]), st)"
    if "n \<notin> set (exclude_tools srv)" and "n \<notin> name ` set (allowed_tools srv)" for srv n
  proof -
    from that(2) have "resolve (allowed_tools srv) n = None"
      by (simp add: resolve_None_iff)
    with that(1) show ?thesis
      by (simp add: call_tool_def)
  qed
  have absent: "''write_query'' \<notin> name ` set (allowed_tools (MCPHTTPServer_init ca False excl ejr ecfg))"
  proof
    assume "''write_query'' \<in> name ` set (allowed_tools (MCPHTTPServer_init ca False excl ejr ecfg))"
    then obtain t where t: "t \<in> set full_catalog" "name t = ''write_query''" "''write'' \<notin> set (tags t)"
      by (auto simp: allowed_tools_init)
    from t(1) consider "t \<in> set base_tools" | "t \<in> set write_tools"
      by (auto simp: full_catalog_def)
    then show False
    proof cases
      case 1
      then have "name t \<in> set (map name base_tools)" by simp
      with t(2) show False by (simp add: base_tools_names)
    next
      case 2
      with t(3) show False by (simp add: write_tools_tagged)
    qed
  qed
  show ?thesis
    using gen [of nm self] gen [OF _ absent] by (simp add: exclude_tools_init)
qed

theorem unknown_tool_rejected_witness:
  "''drop_database'' \<notin> set (exclude_tools read_only_server)
   \<and> ''drop_database'' \<notin> name ` set (allowed_tools read_only_server)
   \<and> call_tool stub_handlers read_only_server ''drop_database'' None (0, []) =
       (Inr (JObject [(''error'', JString ''Unknown tool: drop_database'')]), (0, []))
   \<and> ''write_query'' \<notin> set (or_default None [])
   \<and> call_tool stub_handlers read_only_server ''write_query'' None (0, []) =
       (Inr (JObject [(''error'', JString ''Unknown tool: write_query'')]), (0, []))"
proof -
  have a: "''drop_database'' \<notin> set (exclude_tools read_only_server)"
    by (simp add: read_only_server_excludes)
  have b: "''drop_database'' \<notin> name ` set (allowed_tools read_only_server)"
    by (simp add: read_only_server_tools base_tools_def)
  have c: "''write_query'' \<notin> set (or_default None [])"
    by (simp add: or_default_def)
  from a b c
    unknown_tool_rejected [of "''drop_database''" read_only_server stub_handlers None "(0, [])" None "[]" False None]
  show ?thesis
    unfolding read_only_server_def by simp
qed

text \<open>
  Claim C4, as stated: whatever exception a resolved handler raises, call_tool
  returns the error body with its message and nothing reaches the caller. The
  except clause names \<^verbatim>\<open>Exception\<close>, so this fails for an exception outside
  that hierarchy: when the handler's await is cancelled, the cancellation leaves
  call_tool and no body is returned.
\<close>

theorem handler_fault_caught_counterexample:
  "''read_query'' \<notin> set (exclude_tools read_only_server)
   \<and> resolve (allowed_tools read_only_server) ''read_query'' = Some handle_read_query
   \<and> fst (cancelled_handlers handle_read_query
            (build_call read_only_server ''read_query'' None) 0) = Raises (BaseException [])
   \<and> fst (call_tool cancelled_handlers read_only_server ''read_query'' None (0, []))
        = Inl (BaseException [])
   \<and> fst (call_tool cancelled_handlers read_only_server ''read_query'' None (0, []))
        \<noteq> Inr (JObject [(''error'', JString (exc_str (BaseException [])))])"
proof -
  have a: "''read_query'' \<notin> set (exclude_tools read_only_server)"
    by (simp add: read_only_server_excludes)
  have b: "resolve (allowed_tools read_only_server) ''read_query'' = Some handle_read_query"
    by (rule resolve_read_only(1))
  have c: "cancelled_handlers handle_read_query (build_call read_only_server ''read_query'' None) 0
             = (Raises (BaseException []), 0)"
    by (simp add: cancelled_handlers_def)
  have d: "fst (call_tool cancelled_handlers read_only_server ''read_query'' None (0, []))
             = Inl (BaseException [])"
    by (simp add: call_tool_resolved [where H = cancelled_handlers, OF a b c])
  from a b c d show ?thesis by simp
qed

text \<open>
  Claim C4, amended. When a resolved handler raises an instance of
  \<^verbatim>\<open>Exception\<close>, call_tool returns the error body with \<^verbatim>\<open>str\<close> of it. An
  exception that is not an instance of \<^verbatim>\<open>Exception\<close> leaves call_tool unchanged.
  Every invocation either returns a body of a success or error shape, or passes
  on such an exception raised by the resolved handler.
\<close>

theorem handler_exception_caught:
  "(nm \<notin> set (exclude_tools self) \<longrightarrow> resolve (allowed_tools self) nm = Some h \<longrightarrow>
      H h (build_call self nm args) w = (Raises (Exception msg), w') \<longrightarrow>
        fst (call_tool H self nm args (w, log)) = Inr (JObject [(''error'', JString msg)]))
   \<and> (nm \<notin> set (exclude_tools self) \<longrightarrow> resolve (allowed_tools self) nm = Some h \<longrightarrow>
      H h (build_call self nm args) w = (Raises (BaseException msg), w') \<longrightarrow>
        fst (call_tool H self nm args (w, log)) = Inl (BaseException msg))
   \<and> ((\<exists>body. fst (call_tool H self nm args st) = Inr body \<and> wire_shape body)
       \<or> (\<exists>h' m. nm \<notin> set (exclude_tools self) \<and> resolve (allowed_tools self) nm = Some h'
             \<and> fst (H h' (build_call self nm args) (fst st)) = Raises (BaseException m)
             \<and> fst (call_tool H self nm args st) = Inl (BaseException m)))"
proof (intro conjI impI)
  assume "nm \<notin> set (exclude_tools self)" "resolve (allowed_tools self) nm = Some h"
    "H h (build_call self nm args) w = (Raises (Exception msg), w')"
  then show "fst (call_tool H self nm args (w, log)) = Inr (JObject [(''error'', JString msg)])"
    by (simp add: call_tool_resolved)
next
  assume "nm \<notin> set (exclude_tools self)" "resolve (allowed_tools self) nm = Some h"
    "H h (build_call self nm args) w = (Raises (BaseException msg), w')"
  then show "fst (call_tool H self nm args (w, log)) = Inl (BaseException msg)"
    by (simp add: call_tool_resolved)
next
  show "(\<exists>body. fst (call_tool H self nm args st) = Inr body \<and> wire_shape body)
       \<or> (\<exists>h' m. nm \<notin> set (exclude_tools self) \<and> resolve (allowed_tools self) nm = Some h'
             \<and> fst (H h' (build_call self nm args) (fst st)) = Raises (BaseException m)
             \<and> fst (call_tool H self nm args st) = Inl (BaseException m))"
  proof (cases "fst (call_tool H self nm args st)")
    case (Inr body)
    then show ?thesis by (simp add: call_tool_wire_shape)
  next
    case (Inl e)
    then have "\<exists>h' m. nm \<notin> set (exclude_tools self) \<and> resolve (allowed_tools self) nm = Some h'
        \<and> fst (H h' (build_call self nm args) (fst st)) = Raises (BaseException m)
        \<and> e = BaseException m"
      by (auto simp: call_tool_def invoke_def
          split: if_splits option.splits prod.splits outcome.splits py_exception.splits)
    with Inl show ?thesis by auto
  qed
qed

theorem handler_exception_caught_witness:
  "''describe_table'' \<notin> set (exclude_tools read_only_server)
   \<and> resolve (allowed_tools read_only_server) ''describe_table'' = Some handle_describe_table
   \<and> stub_handlers handle_describe_table (build_call read_only_server ''describe_table'' None) 0
        = (Raises (Exception ''table not found''), 1)
   \<and> fst (call_tool stub_handlers read_only_server ''describe_table'' None (0, []))
        = Inr (JObject [(''error'', JString ''table not found'')])
   \<and> cancelled_handlers handle_describe_table (build_call read_only_server ''describe_table'' None) 0
        = (Raises (BaseException []), 0)
   \<and> fst (call_tool cancelled_handlers read_only_server ''describe_table'' None (0, []))
        = Inl (BaseException [])"
proof -
  have a: "''describe_table'' \<notin> set (exclude_tools read_only_server)"
    by (simp add: read_only_server_excludes)
  have b: "resolve (allowed_tools read_only_server) ''describe_table'' = Some handle_describe_table"
    by (rule resolve_read_only(3))
  have c: "stub_handlers handle_describe_table (build_call read_only_server ''describe_table'' None) 0
        = (Raises (Exception ''table not found''), 1)"
    by (simp add: stub_handlers_def)
  have d: "cancelled_handlers handle_describe_table (build_call read_only_server ''describe_table'' None) 0
        = (Raises (BaseException []), 0)"
    by (simp add: cancelled_handlers_def)
  note t1 = handler_exception_caught [where H = stub_handlers and log = "[]",
      THEN conjunct1, rule_format, OF a b c]
  note t2 = handler_exception_caught [where H = cancelled_handlers and log = "[]",
      THEN conjunct2, THEN conjunct1, rule_format, OF a b d]
  from a b c d t1 t2 show ?thesis by simp
qed

text \<open>
  Claim C5. When the resolved handler returns, call_tool answers with a result
  body: for a list, the list of one string per element, the element's text field
  when it has one and its string coercion otherwise; for any other value, its
  string coercion. Whenever call_tool returns a body at all, the body is a string
  result, a list-of-strings result, or an error string.
\<close>

theorem result_normalized:
  "(nm \<notin> set (exclude_tools self) \<longrightarrow> resolve (allowed_tools self) nm = Some h \<longrightarrow>
      H h (build_call self nm args) w = (Returns r, w') \<longrightarrow>
        fst (call_tool H self nm args (w, log)) =
          Inr (case r of
                 PyList items \<Rightarrow>
                   JObject [(''result'',
                      JArray (map (\<lambda>it. JString (case item_text it of Some t \<Rightarrow> t
                                                    | None \<Rightarrow> item_str it)) items))]
               | PyOther v \<Rightarrow> JObject [(''result'', JString (py_str v))]))
   \<and> (fst (call_tool H self nm args st) = Inr body \<longrightarrow> wire_shape body)"
proof (intro conjI impI)
  assume "nm \<notin> set (exclude_tools self)" "resolve (allowed_tools self) nm = Some h"
    "H h (build_call self nm args) w = (Returns r, w')"
  then have "fst (call_tool H self nm args (w, log)) = Inr (normalize_result r)"
    by (simp add: call_tool_resolved)
  then show "fst (call_tool H self nm args (w, log)) =
          Inr (case r of
                 PyList items \<Rightarrow>
                   JObject [(''result'',
                      JArray (map (\<lambda>it. JString (case item_text it of Some t \<Rightarrow> t
                                                    | None \<Rightarrow> item_str it)) items))]
               | PyOther v \<Rightarrow> JObject [(''result'', JString (py_str v))])"
    by (cases r) (simp_all add: normalize_result_def item_to_text_def)
next
  assume "fst (call_tool H self nm args st) = Inr body"
  then show "wire_shape body" by (rule call_tool_wire_shape)
qed

theorem result_normalized_witness:
  "''read_query'' \<notin> set (exclude_tools read_only_server)
   \<and> resolve (allowed_tools read_only_server) ''read_query'' = Some handle_read_query
   \<and> stub_handlers handle_read_query (build_call read_only_server ''read_query'' None) 0
        = (Returns (PyList [Item (Some ''1 row'') ''TextContent'', Item None ''blob'']), 1)
   \<and> fst (call_tool stub_handlers read_only_server ''read_query'' None (0, []))
        = Inr (JObject [(''result'', JArray [JString ''1 row'', JString ''blob''])])
   \<and> wire_shape (JObject [(''result'', JArray [JString ''1 row'', JString ''blob''])])"
proof -
  have a: "''read_query'' \<notin> set (exclude_tools read_only_server)"
    by (simp add: read_only_server_excludes)
  have b: "resolve (allowed_tools read_only_server) ''read_query'' = Some handle_read_query"
    by (rule resolve_read_only(1))
  have c: "stub_handlers handle_read_query (build_call read_only_server ''read_query'' None) 0
        = (Returns (PyList [Item (Some ''1 row'') ''TextContent'', Item None ''blob'']), 1)"
    by (simp add: stub_handlers_def)
  have d: "fst (call_tool stub_handlers read_only_server ''read_query'' None (0, []))
        = Inr (JObject [(''result'', JArray [JString ''1 row'', JString ''blob''])])"
    using result_normalized [where H = stub_handlers and log = "[]",
        THEN conjunct1, rule_format, OF a b c]
    by simp
  have e: "wire_shape (JObject [(''result'', JArray [JString ''1 row'', JString ''blob''])])"
    by (rule result_normalized [where H = stub_handlers and st = "(0, [])",
        THEN conjunct2, rule_format, OF d])
  from a b c d e show ?thesis by simp
qed

text \<open>
  Claim C6. A resolved tool's handler is applied exactly once, to the request
  arguments, the database client, the write detector, the allow_write flag and
  no server handle, with exclude_json_results as keyword. The exclusion
  configuration is passed exactly when the name is list_databases, list_schemas
  or list_tables; every other tool is called without that keyword. What
  call_tool answers and the world it leaves are what the handler gave on exactly
  that call, and the call is the one entry added to the invocation log.
\<close>

theorem calling_convention:
  "nm \<notin> set (exclude_tools self) \<Longrightarrow> resolve (allowed_tools self) nm = Some h \<Longrightarrow>
     (let c = \<lparr> arg_arguments = args,
                 arg_db = db self,
                 arg_write_detector = write_detector self,
                 arg_allow_write = allow_write self,
                 arg_server = None,
                 kw_exclusion_config =
                   (if nm = ''list_databases'' \<or> nm = ''list_schemas'' \<or> nm = ''list_tables''
                    then Some (exclusion_config self) else None),
                 kw_exclude_json_results = exclude_json_results self \<rparr>
      in fst (call_tool H self nm args (w, log)) =
           (case fst (H h c w) of
              Returns r \<Rightarrow> Inr (normalize_result r)
            | Raises (Exception msg) \<Rightarrow> Inr (JObject [(''error'', JString msg)])
            | Raises (BaseException msg) \<Rightarrow> Inl (BaseException msg))
         \<and> fst (snd (call_tool H self nm args (w, log))) = snd (H h c w)
         \<and> snd (snd (call_tool H self nm args (w, log))) = log @ [(h, c)])"
proof -
  assume a: "nm \<notin> set (exclude_tools self)" and b: "resolve (allowed_tools self) nm = Some h"
  have c: "H h (build_call self nm args) w
             = (fst (H h (build_call self nm args) w), snd (H h (build_call self nm args) w))"
    by simp
  have bc: "build_call self nm args =
      \<lparr> arg_arguments = args, arg_db = db self, arg_write_detector = write_detector self,
        arg_allow_write = allow_write self, arg_server = None,
        kw_exclusion_config =
          (if nm = ''list_databases'' \<or> nm = ''list_schemas'' \<or> nm = ''list_tables''
           then Some (exclusion_config self) else None),
        kw_exclude_json_results = exclude_json_results self \<rparr>"
    by (simp add: build_call_def enumeration_tools_def)
  note r = call_tool_resolved [where H = H and log = log, OF a b c]
  show ?thesis
    unfolding Let_def bc [symmetric] by (simp add: r)
qed

theorem calling_convention_witness:
  "call_tool stub_handlers read_only_server ''list_databases'' None (0, []) =
     (Inr (JObject [(''result'', JArray [])]),
      (1, [(handle_list_databases,
        \<lparr> arg_arguments = None, arg_db = SnowflakeDB [], arg_write_detector = SQLWriteDetector,
          arg_allow_write = False, arg_server = None,
          kw_exclusion_config = Some [(''databases'', []), (''schemas'', []), (''tables'', [])],
          kw_exclude_json_results = False \<rparr>)]))
   \<and> call_tool stub_handlers read_only_server ''read_query'' None (0, []) =
     (Inr (JObject [(''result'', JArray [JString ''1 row'', JString ''blob''])]),
      (1, [(handle_read_query,
        \<lparr> arg_arguments = None, arg_db = SnowflakeDB [], arg_write_detector = SQLWriteDetector,
          arg_allow_write = False, arg_server = None,
          kw_exclusion_config = None,
          kw_exclude_json_results = False \<rparr>)]))"
proof -
  have a: "''list_databases'' \<notin> set (exclude_tools read_only_server)"
    and a': "''read_query'' \<notin> set (exclude_tools read_only_server)"
    by (simp_all add: read_only_server_excludes)
  have f: "db read_only_server = SnowflakeDB []" "write_detector read_only_server = SQLWriteDetector"
    "allow_write read_only_server = False" "exclude_json_results read_only_server = False"
    "exclusion_config read_only_server = [(''databases'', []), (''schemas'', []), (''tables'', [])]"
    by (simp_all add: read_only_server_def MCPHTTPServer_init_def Let_def or_default_def
        default_exclusion_config_def)
  have s: "stub_handlers handle_list_databases c w = (Returns (PyList []), Suc w)"
    "stub_handlers handle_read_query c w =
       (Returns (PyList [Item (Some ''1 row'') ''TextContent'', Item None ''blob'']), Suc w)"
    for c w
    by (simp_all add: stub_handlers_def)
  from calling_convention [OF a resolve_read_only(2), where H = stub_handlers and args = None
      and w = 0 and log = "[]"]
  have 1: "call_tool stub_handlers read_only_server ''list_databases'' None (0, []) =
     (Inr (JObject [(''result'', JArray [])]),
      (1, [(handle_list_databases,
        \<lparr> arg_arguments = None, arg_db = SnowflakeDB [], arg_write_detector = SQLWriteDetector,
          arg_allow_write = False, arg_server = None,
          kw_exclusion_config = Some [(''databases'', []), (''schemas'', []), (''tables'', [])],
          kw_exclude_json_results = False \<rparr>)]))"
    by (simp add: Let_def f s normalize_result_def prod_eq_iff)
  from calling_convention [OF a' resolve_read_only(1), where H = stub_handlers and args = None
      and w = 0 and log = "[]"]
  have 2: "call_tool stub_handlers read_only_server ''read_query'' None (0, []) =
     (Inr (JObject [(''result'', JArray [JString ''1 row'', JString ''blob''])]),
      (1, [(handle_read_query,
        \<lparr> arg_arguments = None, arg_db = SnowflakeDB [], arg_write_detector = SQLWriteDetector,
          arg_allow_write = False, arg_server = None,
          kw_exclusion_config = None,
          kw_exclude_json_results = False \<rparr>)]))"
    by (simp add: Let_def f s normalize_result_def item_to_text_def prod_eq_iff)
  from 1 2 show ?thesis by (rule conjI)
qed

text \<open>
  Claim C10. When the resolved handler returns an empty list, call_tool answers
  with the success body whose result is the empty list. A body with an error key
  comes only from the exclusion check, from a name the registry does not
  resolve, or from an exception the handler raised.
\<close>

theorem empty_list_is_success:
  "(nm \<notin> set (exclude_tools self) \<longrightarrow> resolve (allowed_tools self) nm = Some h \<longrightarrow>
      H h (build_call self nm args) w = (Returns (PyList []), w') \<longrightarrow>
        fst (call_tool H self nm args (w, log)) = Inr (JObject [(''result'', JArray [])]))
   \<and> (fst (call_tool H self nm args st) = Inr (JObject kvs) \<longrightarrow> ''error'' \<in> fst ` set kvs \<longrightarrow>
        nm \<in> set (exclude_tools self)
        \<or> nm \<notin> name ` set (allowed_tools self)
        \<or> (\<exists>h' m. resolve (allowed_tools self) nm = Some h'
              \<and> fst (H h' (build_call self nm args) (fst st)) = Raises (Exception m)))"
proof (intro conjI impI)
  assume "nm \<notin> set (exclude_tools self)" "resolve (allowed_tools self) nm = Some h"
    "H h (build_call self nm args) w = (Returns (PyList []), w')"
  then show "fst (call_tool H self nm args (w, log)) = Inr (JObject [(''result'', JArray [])])"
    by (simp add: call_tool_resolved normalize_result_def)
next
  assume r: "fst (call_tool H self nm args st) = Inr (JObject kvs)" and k: "''error'' \<in> fst ` set kvs"
  show "nm \<in> set (exclude_tools self)
        \<or> nm \<notin> name ` set (allowed_tools self)
        \<or> (\<exists>h' m. resolve (allowed_tools self) nm = Some h'
              \<and> fst (H h' (build_call self nm args) (fst st)) = Raises (Exception m))"
  proof (cases "nm \<in> set (exclude_tools self)")
    case True
    then show ?thesis by simp
  next
    case ne: False
    show ?thesis
    proof (cases "resolve (allowed_tools self) nm")
      case None
      then show ?thesis by (simp add: resolve_None_iff)
    next
      case (Some h')
      obtain out w' where c: "H h' (build_call self nm args) (fst st) = (out, w')"
        by (cases "H h' (build_call self nm args) (fst st)")
      have st: "st = (fst st, snd st)" by simp
      from call_tool_resolved [where H = H and log = "snd st", OF ne Some c] r
      have "(case out of
               Returns r \<Rightarrow> Inr (normalize_result r)
             | Raises (Exception msg) \<Rightarrow> Inr (JObject [(''error'', JString msg)])
             | Raises (BaseException msg) \<Rightarrow> Inl (BaseException msg)) = Inr (JObject kvs)"
        by simp
      with k have "\<exists>m. out = Raises (Exception m)"
        by (auto simp: normalize_result_def split: outcome.splits py_exception.splits py_value.splits)
      with Some c show ?thesis by auto
    qed
  qed
qed

theorem empty_list_is_success_witness:
  "''list_databases'' \<notin> set (exclude_tools read_only_server)
   \<and> resolve (allowed_tools read_only_server) ''list_databases'' = Some handle_list_databases
   \<and> stub_handlers handle_list_databases (build_call read_only_server ''list_databases'' None) 0
        = (Returns (PyList []), 1)
   \<and> fst (call_tool stub_handlers read_only_server ''list_databases'' None (0, []))
        = Inr (JObject [(''result'', JArray [])])
   \<and> fst (call_tool stub_handlers read_only_server ''describe_table'' None (0, []))
        = Inr (JObject [(''error'', JString ''table not found'')])
   \<and> (''describe_table'' \<in> set (exclude_tools read_only_server)
        \<or> ''describe_table'' \<notin> name ` set (allowed_tools read_only_server)
        \<or> (\<exists>h' m. resolve (allowed_tools read_only_server) ''describe_table'' = Some h'
              \<and> fst (stub_handlers h' (build_call read_only_server ''describe_table'' None)
                       (fst (0::nat, []::(handler_ref \<times> handler_call) list)))
                  = Raises (Exception m)))"
proof -
  have a: "''list_databases'' \<notin> set (exclude_tools read_only_server)"
    by (simp add: read_only_server_excludes)
  have b: "resolve (allowed_tools read_only_server) ''list_databases'' = Some handle_list_databases"
    by (rule resolve_read_only(2))
  have c: "stub_handlers handle_list_databases (build_call read_only_server ''list_databases'' None) 0
        = (Returns (PyList []), 1)"
    by (simp add: stub_handlers_def)
  note t = empty_list_is_success [where H = stub_handlers and log = "[]",
      THEN conjunct1, rule_format, OF a b c]
  have d: "fst (call_tool stub_handlers read_only_server ''describe_table'' None (0, []))
        = Inr (JObject [(''error'', JString ''table not found'')])"
    by (simp add: call_tool_def invoke_def read_only_server_excludes resolve_read_only(3)
        stub_handlers_def)
  have e: "''error'' \<in> fst ` set [(''error'', JString ''table not found'')]"
    by simp
  note u = empty_list_is_success [where H = stub_handlers and st = "(0, [])",
      THEN conjunct2, rule_format, OF d e]
  from a b c t d u show ?thesis by simp
qed

section \<open>Tool enumeration and the HTTP endpoints\<close>

text \<open>
  Claim C7. get_tools_list gives one entry per registry descriptor, in registry
  order. Each entry has exactly the keys name, description and input_schema, with
  the descriptor's values; no entry has a handler or tags key. The names read
  off the entries are the registry's names, in order.
\<close>

theorem tools_list_projection:
  "length (get_tools_list self) = length (allowed_tools self)
   \<and> map (map fst) (get_tools_list self) =
       replicate (length (allowed_tools self)) [''name'', ''description'', ''input_schema'']
   \<and> map (\<lambda>d. map_of d ''name'') (get_tools_list self) =
       map (\<lambda>t. Some (JString (name t))) (allowed_tools self)
   \<and> map (\<lambda>d. map_of d ''description'') (get_tools_list self) =
       map (\<lambda>t. Some (JString (description t))) (allowed_tools self)
   \<and> map (\<lambda>d. map_of d ''input_schema'') (get_tools_list self) =
       map (\<lambda>t. Some (input_schema t)) (allowed_tools self)
   \<and> map (\<lambda>d. map_of d ''handler'') (get_tools_list self) =
       replicate (length (allowed_tools self)) None
   \<and> map (\<lambda>d. map_of d ''tags'') (get_tools_list self) =
       replicate (length (allowed_tools self)) None"
  by (simp add: get_tools_list_def o_def map_replicate_const)

text \<open>
  Claim C9. While the global server is unset, the listing endpoint and the
  invocation endpoint fail with HTTP status 500 and the message "Server not
  initialized"; the invocation endpoint leaves the run state untouched, so no
  handler runs. After initialize_server the global is set, the listing endpoint
  answers with the tool list, and neither endpoint raises an HTTPException.
\<close>

theorem uninitialized_guard:
  "list_tools None = Inl (HTTPException 500 ''Server not initialized'')
   \<and> call_tool_endpoint H None nm args st = (Inl (HTTPException 500 ''Server not initialized''), st)
   \<and> list_tools (Some srv) = Inr (JObject [(''tools'', JArray (map JObject (get_tools_list srv)))])
   \<and> fst (call_tool_endpoint H (Some srv) nm args st) \<noteq> Inl (HTTPException code detail)
   \<and> initialize_server ca aw excl ejr ecfg \<noteq> None
   \<and> list_tools (initialize_server ca aw excl ejr ecfg) \<noteq> Inl (HTTPException code detail)
   \<and> fst (call_tool_endpoint H (initialize_server ca aw excl ejr ecfg) nm args st)
        \<noteq> Inl (HTTPException code detail)"
proof -
  have ep: "fst (call_tool_endpoint H (Some s) nm args st) \<noteq> Inl (HTTPException code detail)" for s
    by (simp add: call_tool_endpoint_def split: prod.splits sum.splits)
  show ?thesis
    using ep by (simp add: list_tools_def call_tool_endpoint_def initialize_server_def)
qed

section \<open>The event stream\<close>

lemma yields_ping_loop: "yields (ping_loop clock k n) = map (\<lambda>i. Ping (clock i)) [k..<k + n]"
proof (induction n arbitrary: k)
  case 0
  show ?case by simp
next
  case (Suc n)
  have "[k..<k + Suc n] = k # [Suc k..<Suc k + n]"
    by (simp add: upt_rec)
  with Suc show ?case by simp
qed

lemma sleeps_ping_loop: "sleeps (ping_loop clock k n) = replicate n 30"
  by (induction n arbitrary: k) simp_all

lemma slept_before_ping_loop: "i < n \<Longrightarrow> slept_before i (ping_loop clock k n) = 30 * i"
proof (induction n arbitrary: i k)
  case 0
  then show ?case by simp
next
  case (Suc n)
  show ?case
  proof (cases i)
    case 0
    then show ?thesis by simp
  next
    case (Suc j)
    with Suc.prems have "j < n" by simp
    then have "slept_before j (ping_loop clock (Suc k) n) = 30 * j"
      by (rule Suc.IH)
    with Suc show ?thesis by simp
  qed
qed

lemma sorted_clock_readings:
  fixes clock :: "nat \<Rightarrow> 't::linorder"
  assumes "\<forall>i j. i \<le> j \<longrightarrow> clock i \<le> clock j"
  shows "sorted (map clock [0..<n])"
  using assms by (simp add: sorted_map sorted_wrt_iff_nth_less)

text \<open>
  Claim C8, as stated: the second event of the stream arrives after at least 30
  seconds. In the generator the first ping is yielded straight after the
  connection message, before any sleep: the second event is the first ping, and
  no sleep comes before it.
\<close>

theorem second_event_after_sleep_counterexample:
  "yields (event_stream example_clock 2) ! 1 = Ping (example_clock 0)
   \<and> slept_before 1 (event_stream example_clock 2) = 0
   \<and> \<not> 30 \<le> slept_before 1 (event_stream example_clock 2)"
  by (simp add: event_stream_def numeral_2_eq_2)

text \<open>
  Claim C8, amended. The stream starts with exactly one connection event with
  status connected, followed only by ping events, each stamped with the clock
  reading of its round. The first ping is the second event and follows the
  connection event with no sleep; after every ping the generator sleeps a fixed
  30 seconds, so ping number k (counting from 0) comes after k sleeps of 30
  seconds, and the second ping comes after 30 seconds of sleep. When the clock
  never goes back, the timestamps are non-decreasing, and the second ping's
  timestamp is at least the first ping's.
\<close>

theorem event_stream_order:
  fixes clock :: "nat \<Rightarrow> 't::linorder"
  shows
  "yields (event_stream clock n) = Connection ''connected'' # map (\<lambda>k. Ping (clock k)) [0..<n]
   \<and> sleeps (event_stream clock n) = replicate n 30
   \<and> slept_before 0 (event_stream clock n) = 0
   \<and> (\<forall>k < n. slept_before (Suc k) (event_stream clock n) = 30 * k)
   \<and> ((\<forall>i j. i \<le> j \<longrightarrow> clock i \<le> clock j) \<longrightarrow>
        sorted (map clock [0..<n]) \<and> clock 0 \<le> clock 1)"
proof (intro conjI allI impI)
  show "yields (event_stream clock n) = Connection ''connected'' # map (\<lambda>k. Ping (clock k)) [0..<n]"
    using yields_ping_loop [of clock 0 n] by (simp add: event_stream_def)
  show "sleeps (event_stream clock n) = replicate n 30"
    by (simp add: event_stream_def sleeps_ping_loop)
  show "slept_before 0 (event_stream clock n) = 0"
    by (simp add: event_stream_def)
  show "slept_before (Suc k) (event_stream clock n) = 30 * k" if "k < n" for k
    using that by (simp add: event_stream_def slept_before_ping_loop)
  show "sorted (map clock [0..<n])" if "\<forall>i j. i \<le> j \<longrightarrow> clock i \<le> clock j"
    using that by (rule sorted_clock_readings)
  show "clock 0 \<le> clock 1" if "\<forall>i j. i \<le> j \<longrightarrow> clock i \<le> clock j"
    using that by simp
qed

theorem event_stream_order_witness:
  "yields (event_stream example_clock 3) =
     [Connection ''connected'', Ping 1000, Ping 1030, Ping 1060]
   \<and> (1::nat) < 3 \<and> slept_before 2 (event_stream example_clock 3) = 30
   \<and> sorted (map example_clock [0..<3]) \<and> example_clock 0 \<le> example_clock 1"
proof -
  note t = event_stream_order [of example_clock 3]
  have m: "\<forall>i j. i \<le> j \<longrightarrow> example_clock i \<le> example_clock j"
    by (simp add: example_clock_def)
  have y: "yields (event_stream example_clock 3) =
     [Connection ''connected'', Ping 1000, Ping 1030, Ping 1060]"
    using t [THEN conjunct1] by (simp add: example_clock_def upt_rec)
  have k: "(1::nat) < 3" by simp
  have s: "slept_before 2 (event_stream example_clock 3) = 30"
    using t [THEN conjunct2, THEN conjunct2, THEN conjunct2, THEN conjunct1, rule_format, OF k]
    by (simp add: numeral_2_eq_2)
  have o: "sorted (map example_clock [0..<3]) \<and> example_clock 0 \<le> example_clock 1"
    using t [THEN conjunct2, THEN conjunct2, THEN conjunct2, THEN conjunct2, THEN mp, OF m]
    by simp
  from y k s o show ?thesis by simp
qed

end
